theory Spec2Isabelle
  imports Complex_Main "HOL-Library.Word"
begin

section \<open>Double-precision numbers\<close>

text \<open>
  A \<^verbatim>\<open>double\<close> is a finite number, an infinity or NaN. The two zeros are one value
  here: the program compares cells with \<^verbatim>\<open>!=\<close>, for which the zeros are equal, and never
  divides by a cell.
\<close>

datatype double = Finite real | PosInf | NegInf | NaN

text \<open>
  The arithmetic is that of IEEE 754 binary64 in its default mode. The exact result is
  rounded to the nearest number with 53 significant bits, a tie going to the even
  neighbour; below \<open>2 powi (- 1022)\<close> the spacing stays at \<open>2 powi (- 1074)\<close>; a rounded
  result of magnitude \<open>2 ^ 1024\<close> or more is an infinity.
\<close>

definition round_even :: "real \<Rightarrow> int" where
  "round_even q =
     (let f = \<lfloor>q\<rfloor>; d = q - of_int f
      in if d < 1 / 2 then f else if 1 / 2 < d then f + 1 else if even f then f else f + 1)"

definition exponent :: "real \<Rightarrow> int" where
  "exponent x = max \<lfloor>log 2 \<bar>x\<bar>\<rfloor> (- 1022)"

definition round_double :: "real \<Rightarrow> double" where
  "round_double x =
     (if x = 0 then Finite 0
      else let ulp = 2 powi (exponent x - 52); y = of_int (round_even (x / ulp)) * ulp
           in if 2 ^ 1024 \<le> \<bar>y\<bar> then (if 0 < x then PosInf else NegInf) else Finite y)"

text \<open>The real numbers that are doubles: rounding leaves them as they are.\<close>

definition is_double :: "real \<Rightarrow> bool" where
  "is_double x = (round_double x = Finite x)"

text \<open>\<^verbatim>\<open>x + y\<close>\<close>

fun double_add :: "double \<Rightarrow> double \<Rightarrow> double" where
  "double_add (Finite x) (Finite y) = round_double (x + y)"
| "double_add NaN y = NaN"
| "double_add x NaN = NaN"
| "double_add PosInf NegInf = NaN"
| "double_add NegInf PosInf = NaN"
| "double_add PosInf y = PosInf"
| "double_add x PosInf = PosInf"
| "double_add NegInf y = NegInf"
| "double_add x NegInf = NegInf"

text \<open>\<^verbatim>\<open>x * y\<close>\<close>

fun double_mul :: "double \<Rightarrow> double \<Rightarrow> double" where
  "double_mul (Finite x) (Finite y) = round_double (x * y)"
| "double_mul NaN y = NaN"
| "double_mul x NaN = NaN"
| "double_mul (Finite x) PosInf = (if x = 0 then NaN else if 0 < x then PosInf else NegInf)"
| "double_mul (Finite x) NegInf = (if x = 0 then NaN else if 0 < x then NegInf else PosInf)"
| "double_mul PosInf (Finite y) = (if y = 0 then NaN else if 0 < y then PosInf else NegInf)"
| "double_mul NegInf (Finite y) = (if y = 0 then NaN else if 0 < y then NegInf else PosInf)"
| "double_mul PosInf PosInf = PosInf"
| "double_mul PosInf NegInf = NegInf"
| "double_mul NegInf PosInf = NegInf"
| "double_mul NegInf NegInf = PosInf"

text \<open>
  \<^verbatim>\<open>x / y\<close>. C++ defines no result for a division by zero; IEEE 754 arithmetic gives
  NaN or an infinity there and raises nothing. The model writes that outcome as
  \<open>Undefined\<close> (in HOL, \<open>x / 0 = 0\<close>).
\<close>

datatype quotient = Defined double | Undefined

fun double_div :: "double \<Rightarrow> double \<Rightarrow> quotient" where
  "double_div (Finite x) (Finite y) =
     (if y = 0 then Undefined else Defined (round_double (x / y)))"
| "double_div NaN y = Defined NaN"
| "double_div x NaN = Defined NaN"
| "double_div PosInf (Finite y) =
     (if y = 0 then Undefined else if 0 < y then Defined PosInf else Defined NegInf)"
| "double_div NegInf (Finite y) =
     (if y = 0 then Undefined else if 0 < y then Defined NegInf else Defined PosInf)"
| "double_div (Finite x) PosInf = Defined (Finite 0)"
| "double_div (Finite x) NegInf = Defined (Finite 0)"
| "double_div PosInf PosInf = Defined NaN"
| "double_div PosInf NegInf = Defined NaN"
| "double_div NegInf PosInf = Defined NaN"
| "double_div NegInf NegInf = Defined NaN"

text \<open>\<^verbatim>\<open>x != y\<close>: NaN differs from everything, itself included.\<close>

definition double_ne :: "double \<Rightarrow> double \<Rightarrow> bool" where
  "double_ne x y = (if x = NaN then True else if y = NaN then True else x \<noteq> y)"

text \<open>\<^verbatim>\<open>static_cast<double>(i)\<close> for an integer \<open>i\<close>\<close>

definition double_of_int :: "int \<Rightarrow> double" where
  "double_of_int i = round_double (of_int i)"

section \<open>matrix.hpp: the 4x4 matrix of atomic cells\<close>

text \<open>
  The cells are \<^verbatim>\<open>std::atomic<double>\<close>. The index parameters of \<^verbatim>\<open>operator()\<close> are
  \<^verbatim>\<open>unsigned int\<close>, a 32-bit word. The loop counters of the source are \<^verbatim>\<open>int\<close>s that
  stay within 0..5; they are natural numbers here, converted with \<open>of_nat\<close> where the
  source passes them to an \<^verbatim>\<open>unsigned int\<close> parameter.
\<close>

type_synonym uint = "32 word"

text \<open>Both \<^verbatim>\<open>throw\<close> statements of the header raise \<^verbatim>\<open>std::out_of_range\<close> with a message.\<close>

datatype exception = out_of_range string

text \<open>
  The member \<^verbatim>\<open>_data[4][4]\<close>: \<open>m r c\<close> is the content of \<^verbatim>\<open>_data[r][c]\<close>. Only the
  indices below 4 are cells of the array.
\<close>

type_synonym matrix = "nat \<Rightarrow> nat \<Rightarrow> double"

text \<open>\<^verbatim>\<open>_data[rowIndex][colIndex].store(v)\<close>\<close>

definition store_data :: "matrix \<Rightarrow> nat \<Rightarrow> nat \<Rightarrow> double \<Rightarrow> matrix" where
  "store_data m rowIndex colIndex v = m(rowIndex := (m rowIndex)(colIndex := v))"

subsection \<open>The constructor from an initializer list\<close>

text \<open>
  The constructor has no member initializer for \<^verbatim>\<open>_data\<close>, so the cells hold whatever the
  default construction of \<^verbatim>\<open>std::atomic<double>\<close> leaves there: an indeterminate value
  before C++20, 0.0 from C++20 on. The model takes that content as the parameter
  \<open>storage\<close>, and the constructor body performs its stores on it.
\<close>

text \<open>\<^verbatim>\<open>for (double element : rowVector) { _data[rowIndex][colIndex].store(element); colIndex++; }\<close>\<close>

primrec store_elements :: "double list \<Rightarrow> nat \<Rightarrow> nat \<Rightarrow> matrix \<Rightarrow> nat \<times> matrix" where
  "store_elements [] rowIndex colIndex m = (colIndex, m)"
| "store_elements (element # rest) rowIndex colIndex m =
     store_elements rest rowIndex (colIndex + 1) (store_data m rowIndex colIndex element)"

text \<open>\<^verbatim>\<open>for (; colIndex < 4; colIndex++) { _data[rowIndex][colIndex].store(double()); }\<close>\<close>

function zero_cols :: "nat \<Rightarrow> nat \<Rightarrow> matrix \<Rightarrow> matrix" where
  "zero_cols rowIndex colIndex m =
     (if colIndex < 4 then zero_cols rowIndex (colIndex + 1) (store_data m rowIndex colIndex (Finite 0))
      else m)"
  by pat_completeness auto
termination
  by (relation "measure (\<lambda>(rowIndex, colIndex, m). 4 - colIndex)") auto

text \<open>
  The loop over the row vectors: the length check of each row, its elements, the zeros
  behind them, then \<^verbatim>\<open>rowIndex++\<close>.
\<close>

fun init_rows :: "double list list \<Rightarrow> nat \<Rightarrow> matrix \<Rightarrow> exception + nat \<times> matrix" where
  "init_rows [] rowIndex m = Inr (rowIndex, m)"
| "init_rows (rowVector # rest) rowIndex m =
     (if length rowVector > 4
      then Inl (out_of_range ''Cannot initialize a 4x4 matrix with a vector with more than 4 elements.'')
      else (case store_elements rowVector rowIndex 0 m of
              (colIndex, m') \<Rightarrow> init_rows rest (rowIndex + 1) (zero_cols rowIndex colIndex m')))"

text \<open>
  The loop over the remaining rows. Its header increments \<^verbatim>\<open>rowIndex\<close> and so does the
  last statement of its body:
  \<^verbatim>\<open>for (; rowIndex < 4; rowIndex++) { for (int colIndex = 0; colIndex < 4; colIndex++) {...} rowIndex++; }\<close>
\<close>

function zero_rows :: "nat \<Rightarrow> matrix \<Rightarrow> matrix" where
  "zero_rows rowIndex m =
     (if rowIndex < 4 then zero_rows ((rowIndex + 1) + 1) (zero_cols rowIndex 0 m)
      else m)"
  by pat_completeness auto
termination
  by (relation "measure (\<lambda>(rowIndex, m). 4 - rowIndex)") auto

definition AtomicMatrix4x4 :: "matrix \<Rightarrow> double list list \<Rightarrow> exception + matrix" where
  "AtomicMatrix4x4 storage values =
     (if length values > 4
      then Inl (out_of_range ''Cannot initialize a 4x4 matrix with more than 4 row vectors.'')
      else (case init_rows values 0 storage of
              Inl e \<Rightarrow> Inl e
            | Inr (rowIndex, m) \<Rightarrow> Inr (zero_rows rowIndex m)))"

subsection \<open>Element access\<close>

text \<open>
  \<^verbatim>\<open>operator()\<close> returns a reference to the cell, here the pair of its indices; the
  caller then calls \<^verbatim>\<open>load()\<close> or \<^verbatim>\<open>store()\<close> on it.
\<close>

definition operator_paren :: "uint \<Rightarrow> uint \<Rightarrow> exception + nat \<times> nat" where
  "operator_paren rowIndex colIndex =
     (if rowIndex \<ge> 4 \<or> colIndex \<ge> 4 then Inl (out_of_range ''Invalid index.'')
      else Inr (unat rowIndex, unat colIndex))"

definition load :: "matrix \<Rightarrow> nat \<times> nat \<Rightarrow> double" where
  "load m cell = m (fst cell) (snd cell)"

definition store :: "matrix \<Rightarrow> nat \<times> nat \<Rightarrow> double \<Rightarrow> matrix" where
  "store m cell v = store_data m (fst cell) (snd cell) v"

text \<open>The cell read \<^verbatim>\<open>m(row, col).load()\<close> and the cell write \<^verbatim>\<open>m(row, col).store(v)\<close>.\<close>

definition get_cell :: "matrix \<Rightarrow> uint \<Rightarrow> uint \<Rightarrow> exception + double" where
  "get_cell m rowIndex colIndex =
     (case operator_paren rowIndex colIndex of Inl e \<Rightarrow> Inl e | Inr cell \<Rightarrow> Inr (load m cell))"

definition set_cell :: "matrix \<Rightarrow> uint \<Rightarrow> uint \<Rightarrow> double \<Rightarrow> exception + matrix" where
  "set_cell m rowIndex colIndex v =
     (case operator_paren rowIndex colIndex of Inl e \<Rightarrow> Inl e | Inr cell \<Rightarrow> Inr (store m cell v))"

text \<open>
  The specification names the failures by kind. Both are \<^verbatim>\<open>std::out_of_range\<close> in the
  source, told apart by where they are thrown and by their message.
\<close>

definition ConfigurationError :: "exception \<Rightarrow> bool" where
  "ConfigurationError e =
     (e = out_of_range ''Cannot initialize a 4x4 matrix with more than 4 row vectors.'' \<or>
      e = out_of_range ''Cannot initialize a 4x4 matrix with a vector with more than 4 elements.'')"

definition IndexError :: "exception \<Rightarrow> bool" where
  "IndexError e = (e = out_of_range ''Invalid index.'')"

subsection \<open>Copying\<close>

text \<open>A \<^verbatim>\<open>for (int i = 0; i < 4; i++)\<close> loop runs its body on 0, 1, 2, 3 in turn.\<close>

text \<open>The copy constructor (on fresh storage) and the copy assignment (on \<^verbatim>\<open>*this\<close>).\<close>

definition copy_cells :: "matrix \<Rightarrow> matrix \<Rightarrow> matrix" where
  "copy_cells this other =
     fold (\<lambda>rowIndex. fold (\<lambda>colIndex m. store_data m rowIndex colIndex (other rowIndex colIndex)) [0..<4])
       [0..<4] this"

definition copy_constructor :: "matrix \<Rightarrow> matrix \<Rightarrow> matrix" where
  "copy_constructor storage other = copy_cells storage other"

definition operator_assign :: "matrix \<Rightarrow> matrix \<Rightarrow> matrix" where
  "operator_assign this other = copy_cells this other"

subsection \<open>Product and comparison\<close>

text \<open>A counting loop whose body may throw: the first exception ends the loop.\<close>

primrec for_each :: "nat list \<Rightarrow> (nat \<Rightarrow> 's \<Rightarrow> exception + 's) \<Rightarrow> 's \<Rightarrow> exception + 's" where
  "for_each [] body s = Inr s"
| "for_each (i # rest) body s =
     (case body i s of Inl e \<Rightarrow> Inl e | Inr s' \<Rightarrow> for_each rest body s')"

text \<open>
  \<^verbatim>\<open>dotProduct += leftMat(rowIndex, i).load() * rightMat(i, colIndex);\<close>
  The product is rounded to a double, then the sum is: no fused multiply-add and no
  extended precision.
\<close>

definition dot_step :: "matrix \<Rightarrow> matrix \<Rightarrow> nat \<Rightarrow> nat \<Rightarrow> nat \<Rightarrow> double \<Rightarrow> exception + double" where
  "dot_step leftMat rightMat rowIndex colIndex i dotProduct =
     (case operator_paren (of_nat rowIndex) (of_nat i) of
        Inl e \<Rightarrow> Inl e
      | Inr l \<Rightarrow>
          (case operator_paren (of_nat i) (of_nat colIndex) of
             Inl e \<Rightarrow> Inl e
           | Inr r \<Rightarrow>
               Inr (double_add dotProduct (double_mul (load leftMat l) (load rightMat r)))))"

text \<open>
  \<^verbatim>\<open>operator*\<close>. The result object is default-constructed (the constructor above, on an
  empty initializer list) on fresh storage, then every product cell is stored into it.
\<close>

definition operator_mul :: "matrix \<Rightarrow> matrix \<Rightarrow> matrix \<Rightarrow> exception + matrix" where
  "operator_mul storage leftMat rightMat =
     (case AtomicMatrix4x4 storage [] of
        Inl e \<Rightarrow> Inl e
      | Inr dotProductMatrix \<Rightarrow>
          for_each [0..<4] (\<lambda>rowIndex.
            for_each [0..<4] (\<lambda>colIndex m.
              (case for_each [0..<4] (dot_step leftMat rightMat rowIndex colIndex) (Finite 0) of
                 Inl e \<Rightarrow> Inl e
               | Inr dotProduct \<Rightarrow>
                   (case operator_paren (of_nat rowIndex) (of_nat colIndex) of
                      Inl e \<Rightarrow> Inl e
                    | Inr cell \<Rightarrow> Inr (store m cell dotProduct)))))
            dotProductMatrix)"

text \<open>
  A counting loop whose body may \<^verbatim>\<open>return\<close> from the enclosing function: \<open>Some r\<close> is
  the returned value, \<open>None\<close> says that the loop ran to its end.
\<close>

primrec for_each_return :: "nat list \<Rightarrow> (nat \<Rightarrow> exception + 'r option) \<Rightarrow> exception + 'r option" where
  "for_each_return [] body = Inr None"
| "for_each_return (i # rest) body =
     (case body i of
        Inl e \<Rightarrow> Inl e
      | Inr None \<Rightarrow> for_each_return rest body
      | Inr (Some r) \<Rightarrow> Inr (Some r))"

text \<open>\<^verbatim>\<open>operator==\<close> and \<^verbatim>\<open>operator!=\<close>\<close>

definition operator_eq :: "matrix \<Rightarrow> matrix \<Rightarrow> exception + bool" where
  "operator_eq leftMat rightMat =
     (case for_each_return [0..<4] (\<lambda>rowIndex.
             for_each_return [0..<4] (\<lambda>colIndex.
               (case operator_paren (of_nat rowIndex) (of_nat colIndex) of
                  Inl e \<Rightarrow> Inl e
                | Inr l \<Rightarrow>
                    (case operator_paren (of_nat rowIndex) (of_nat colIndex) of
                       Inl e \<Rightarrow> Inl e
                     | Inr r \<Rightarrow>
                         if double_ne (load leftMat l) (load rightMat r) then Inr (Some False)
                         else Inr None)))) of
        Inl e \<Rightarrow> Inl e
      | Inr (Some b) \<Rightarrow> Inr b
      | Inr None \<Rightarrow> Inr True)"

definition operator_ne :: "matrix \<Rightarrow> matrix \<Rightarrow> exception + bool" where
  "operator_ne leftMat rightMat =
     (case operator_eq leftMat rightMat of Inl e \<Rightarrow> Inl e | Inr b \<Rightarrow> Inr (\<not> b))"

subsection \<open>MultiplicationRecorder\<close>

text \<open>
  The three members \<^verbatim>\<open>_leftMat\<close>, \<^verbatim>\<open>_rightMat\<close> and \<^verbatim>\<open>_dotProduct\<close> are matrices held
  by value (an identifier cannot start with an underscore here, hence the prefix).
\<close>

record MultiplicationRecorder =
  m_leftMat :: matrix
  m_rightMat :: matrix
  m_dotProduct :: matrix

text \<open>
  The constructor takes its three arguments by value, so each is copy-constructed from
  the caller's matrix, and each member is copy-constructed from its argument.
\<close>

definition new_MultiplicationRecorder ::
  "matrix \<Rightarrow> matrix \<Rightarrow> matrix \<Rightarrow> matrix \<Rightarrow> MultiplicationRecorder" where
  "new_MultiplicationRecorder storage leftMat rightMat dotProduct =
     \<lparr>m_leftMat = copy_constructor storage (copy_constructor storage leftMat),
      m_rightMat = copy_constructor storage (copy_constructor storage rightMat),
      m_dotProduct = copy_constructor storage (copy_constructor storage dotProduct)\<rparr>"

text \<open>The copy constructor of the recorder copy-constructs the three members.\<close>

definition copy_MultiplicationRecorder ::
  "matrix \<Rightarrow> MultiplicationRecorder \<Rightarrow> MultiplicationRecorder" where
  "copy_MultiplicationRecorder storage other =
     \<lparr>m_leftMat = copy_constructor storage (m_leftMat other),
      m_rightMat = copy_constructor storage (m_rightMat other),
      m_dotProduct = copy_constructor storage (m_dotProduct other)\<rparr>"

text \<open>\<^verbatim>\<open>return _dotProduct == _leftMat * _rightMat;\<close>\<close>

definition isCorrect :: "matrix \<Rightarrow> MultiplicationRecorder \<Rightarrow> exception + bool" where
  "isCorrect storage this =
     (case operator_mul storage (m_leftMat this) (m_rightMat this) of
        Inl e \<Rightarrow> Inl e
      | Inr product \<Rightarrow> operator_eq (m_dotProduct this) product)"

section \<open>main.cpp: the test fixture\<close>

text \<open>
  The members of \<^verbatim>\<open>TestSuiteFixture\<close>. The field \<open>modifier_threads\<close> is not a member: it
  counts the detached threads running \<^verbatim>\<open>modifyingTestVariableValues\<close> that the fixture has
  launched. The mutex is left out: the model runs one call at a time.
\<close>

record TestSuiteFixture =
  m_mat1 :: matrix
  m_mat2 :: matrix
  m_shouldModificationsContinue :: bool
  m_calculations :: "MultiplicationRecorder list"
  modifier_threads :: nat

text \<open>
  \<^verbatim>\<open>if (_shouldModificationsContinue.load()) return;\<close> then the flag is set and a thread is
  launched and detached. That the operating system may refuse a new thread is left out.
\<close>

definition runTestVariableModifier :: "TestSuiteFixture \<Rightarrow> TestSuiteFixture" where
  "runTestVariableModifier this =
     (if m_shouldModificationsContinue this then this
      else this\<lparr>m_shouldModificationsContinue := True,
                modifier_threads := modifier_threads this + 1\<rparr>)"

text \<open>
  One pass through the body of the loop of \<^verbatim>\<open>modifyingTestVariableValues\<close>. The six
  arguments are the results of the six calls of \<^verbatim>\<open>std::rand()\<close>, which are not negative.
\<close>

definition modify_once ::
  "int \<Rightarrow> int \<Rightarrow> int \<Rightarrow> int \<Rightarrow> int \<Rightarrow> int \<Rightarrow> TestSuiteFixture \<Rightarrow> exception + TestSuiteFixture" where
  "modify_once rand1 rand2 rand3 rand4 rand5 rand6 this =
     (case set_cell (m_mat1 this) (word_of_int rand1 mod 4) (word_of_int rand2 mod 4)
             (double_of_int (rand3 mod 4)) of
        Inl e \<Rightarrow> Inl e
      | Inr mat1 \<Rightarrow>
          (case set_cell (m_mat2 this) (word_of_int rand4 mod 4) (word_of_int rand5 mod 4)
                  (double_of_int (rand6 mod 4)) of
             Inl e \<Rightarrow> Inl e
           | Inr mat2 \<Rightarrow> Inr (this\<lparr>m_mat1 := mat1, m_mat2 := mat2\<rparr>)))"

text \<open>
  One cycle of the tests:
  \<^verbatim>\<open>MultiplicationRecorder calculation(_mat1, _mat2, _mat1 * _mat2); _calculations.push_back(calculation);\<close>
  The vector receives a copy of the recorder.
\<close>

definition record_calculation :: "matrix \<Rightarrow> TestSuiteFixture \<Rightarrow> exception + TestSuiteFixture" where
  "record_calculation storage this =
     (case operator_mul storage (m_mat1 this) (m_mat2 this) of
        Inl e \<Rightarrow> Inl e
      | Inr product \<Rightarrow>
          Inr (this\<lparr>m_calculations := m_calculations this @
                 [copy_MultiplicationRecorder storage
                    (new_MultiplicationRecorder storage (m_mat1 this) (m_mat2 this) product)]\<rparr>))"

text \<open>
  The counting loop of \<^verbatim>\<open>calculateAccuracy\<close>. The counter is an \<^verbatim>\<open>unsigned long\<close> that
  never exceeds the size of the vector, so it is a natural number here. The return
  statement is
  \<^verbatim>\<open>(static_cast<double>(correctCalculations) * 100.0) / (static_cast<double>(_calculations.size()))\<close>
\<close>

primrec count_correct :: "matrix \<Rightarrow> MultiplicationRecorder list \<Rightarrow> nat \<Rightarrow> exception + nat" where
  "count_correct storage [] correctCalculations = Inr correctCalculations"
| "count_correct storage (calculation # rest) correctCalculations =
     (case isCorrect storage calculation of
        Inl e \<Rightarrow> Inl e
      | Inr b \<Rightarrow>
          count_correct storage rest
            (if b then correctCalculations + 1 else correctCalculations))"

definition calculateAccuracy :: "matrix \<Rightarrow> TestSuiteFixture \<Rightarrow> exception + quotient" where
  "calculateAccuracy storage this =
     (case count_correct storage (m_calculations this) 0 of
        Inl e \<Rightarrow> Inl e
      | Inr correctCalculations \<Rightarrow>
          Inr (double_div
                 (double_mul (double_of_int (int correctCalculations)) (Finite 100))
                 (double_of_int (int (length (m_calculations this))))))"

subsection \<open>Concrete values for the examples\<close>

text \<open>Storage that holds the same value in every cell.\<close>

definition filled :: "double \<Rightarrow> matrix" where
  "filled v = (\<lambda>rowIndex colIndex. v)"

text \<open>A fixture that runs no modifier and has recorded nothing, and one that has started.\<close>

definition idle_fixture :: TestSuiteFixture where
  "idle_fixture =
     \<lparr>m_mat1 = filled (Finite 1), m_mat2 = filled (Finite 2),
      m_shouldModificationsContinue = False,
      m_calculations = [], modifier_threads = 0\<rparr>"

definition running_fixture :: TestSuiteFixture where
  "running_fixture = runTestVariableModifier idle_fixture"

text \<open>A right and a wrong calculation of the same operands.\<close>

definition right_calculation :: MultiplicationRecorder where
  "right_calculation =
     new_MultiplicationRecorder (filled (Finite 0)) (filled (Finite 1)) (filled (Finite 2))
       (filled (Finite 8))"

definition wrong_calculation :: MultiplicationRecorder where
  "wrong_calculation =
     new_MultiplicationRecorder (filled (Finite 0)) (filled (Finite 1)) (filled (Finite 2))
       (filled (Finite 7))"

text \<open>Fixtures that hold one right calculation out of two, and one out of three.\<close>

definition recorded_fixture :: TestSuiteFixture where
  "recorded_fixture =
     idle_fixture\<lparr>m_calculations := [right_calculation, wrong_calculation]\<rparr>"

definition thirds_fixture :: TestSuiteFixture where
  "thirds_fixture =
     idle_fixture\<lparr>m_calculations := [right_calculation, wrong_calculation, wrong_calculation]\<rparr>"

text \<open>
  Two operands with a sum of products that is not a double: row 0 of the left one is
  \<open>2 ^ 53, 1, 0, 0\<close>, column 0 of the right one is \<open>1, 1, 0, 0\<close>, all other cells are 0.
\<close>

definition rounding_left :: matrix where
  "rounding_left =
     store_data (store_data (filled (Finite 0)) 0 0 (Finite 9007199254740992)) 0 1 (Finite 1)"

definition rounding_right :: matrix where
  "rounding_right =
     store_data (store_data (filled (Finite 0)) 0 0 (Finite 1)) 1 0 (Finite 1)"

text \<open>One cell of a product: \<^verbatim>\<open>(leftMat * rightMat)(rowIndex, colIndex).load()\<close>\<close>

definition product_cell :: "matrix \<Rightarrow> matrix \<Rightarrow> matrix \<Rightarrow> uint \<Rightarrow> uint \<Rightarrow> exception + double" where
  "product_cell storage leftMat rightMat rowIndex colIndex =
     (case operator_mul storage leftMat rightMat of
        Inl e \<Rightarrow> Inl e
      | Inr product \<Rightarrow> get_cell product rowIndex colIndex)"

text \<open>The two counting loops of the constructor are unfolded by hand in the proofs.\<close>

declare zero_cols.simps [simp del] zero_rows.simps [simp del]

section \<open>Rounding\<close>

lemma round_even_of_int: "round_even (of_int m) = m"
  by (simp add: round_even_def)

lemma exponent_eqI:
  assumes "2 powi e \<le> \<bar>x\<bar>" and "\<bar>x\<bar> < 2 powi (e + 1)" and "- 1022 \<le> e"
  shows "exponent x = e"
proof -
  have pos: "0 < \<bar>x\<bar>"
  proof -
    have "(0::real) < 2 powi e" by simp
    then show ?thesis using assms(1) by linarith
  qed
  have p: "(2::real) powr real_of_int k = 2 powi k" for k
    by (rule powr_real_of_int') simp_all
  have "2 powr real_of_int e \<le> \<bar>x\<bar>" "\<bar>x\<bar> < 2 powr (real_of_int e + 1)"
    using assms(1,2) p [of e] p [of "e + 1"] by simp_all
  then have "\<lfloor>log 2 \<bar>x\<bar>\<rfloor> = e"
    using pos by (subst floor_log_eq_powr_iff) simp_all
  then show ?thesis
    using assms(3) by (simp add: exponent_def)
qed

lemma round_double_of_int:
  assumes "\<bar>n\<bar> < 2 ^ 53"
  shows "round_double (of_int n) = Finite (of_int n)"
proof (cases "n = 0")
  case True
  then show ?thesis by (simp add: round_double_def)
next
  case False
  define x :: real where "x = of_int n"
  have "1 \<le> \<bar>n\<bar>" using False by simp
  then have "(1::real) \<le> of_int \<bar>n\<bar>" by (simp only: of_int_1_le_iff) 
  then have x1: "1 \<le> \<bar>x\<bar>" by (simp add: x_def)
  have "(of_int \<bar>n\<bar> :: real) < 2 ^ 53" using assms by (simp only: of_int_less_numeral_power_cancel_iff)
  then have x53: "\<bar>x\<bar> < 2 ^ 53" by (simp add: x_def)
  have l0: "0 \<le> log 2 \<bar>x\<bar>"
    using x1 by simp
  have "\<bar>x\<bar> < 2 powr 53"
    using x53 by simp
  then have l53: "log 2 \<bar>x\<bar> < 53"
    using x1 by (subst log_less_iff) simp_all
  define e where "e = exponent x"
  have e: "0 \<le> e" "e \<le> 52"
    using l0 l53 unfolding e_def exponent_def by (simp_all add: floor_less_iff le_floor_iff)
  define k where "k = nat (52 - e)"
  have "e - 52 = - int k" using e by (simp add: k_def)
  then have ulp: "(2::real) powi (e - 52) = inverse (2 ^ k)"
    by (simp add: power_int_minus)
  have q: "x / inverse (2 ^ k) = of_int (n * 2 ^ k)"
    by (simp add: x_def field_simps)
  have y: "of_int (round_even (x / inverse (2 ^ k))) * inverse (2 ^ k) = x"
    unfolding q round_even_of_int by (simp add: x_def field_simps)
  have "(2::real) ^ 53 \<le> 2 ^ 1024"
    by (rule power_increasing) simp_all
  then have "\<bar>x\<bar> < (2::real) ^ 1024"
    using x53 by linarith
  then show ?thesis
    using False y ulp x_def e_def by (simp add: round_double_def Let_def)
qed

lemma round_double_0: "round_double 0 = Finite 0"
  by (simp add: round_double_def)

lemma round_double_1: "round_double 1 = Finite 1"
  using round_double_of_int [of 1] by simp

lemma round_double_numeral:
  "numeral k < (9007199254740992::int) \<Longrightarrow> round_double (numeral k) = Finite (numeral k)"
  using round_double_of_int [of "numeral k"] by simp

lemma round_double_of_nat:
  "k < 2 ^ 53 \<Longrightarrow> round_double (real k) = Finite (real k)"
  using round_double_of_int [of "int k"] by simp

lemma is_double_numeral:
  "numeral k < (9007199254740992::int) \<Longrightarrow> is_double (numeral k)"
  by (simp add: is_double_def round_double_numeral)

lemma round_double_2_53: "round_double 9007199254740992 = Finite 9007199254740992"
proof -
  have "exponent 9007199254740992 = 53"
    by (rule exponent_eqI) simp_all
  then show ?thesis
    by (simp add: round_double_def round_even_def)
qed

lemma round_double_2_53_plus_1: "round_double 9007199254740993 = Finite 9007199254740992"
proof -
  have "exponent 9007199254740993 = 53"
    by (rule exponent_eqI) simp_all
  then show ?thesis
    by (simp add: round_double_def round_even_def)
qed

lemma round_double_100_thirds:
  "round_double (100 / 3) = Finite (4691249611844267 / 2 ^ 47)"
proof -
  have "exponent (100 / 3) = 5"
    by (rule exponent_eqI) simp_all
  then show ?thesis
    by (simp add: round_double_def round_even_def power_int_minus)
qed

lemma round_double_overflow: "round_double (2 ^ 1024) = PosInf"
proof -
  have "exponent (2 ^ 1024) = 1024"
    by (rule exponent_eqI) simp_all
  then show ?thesis
    by (simp add: round_double_def round_even_def)
qed

lemma double_mul_overflow: "double_mul (Finite (2 ^ 1023)) (Finite 2) = PosInf"
  using round_double_overflow by simp

lemma double_ne_Finite: "double_ne (Finite x) (Finite y) \<longleftrightarrow> x \<noteq> y"
  by (simp add: double_ne_def)

section \<open>What the loops compute\<close>

lemma upt_4: "[0..<4] = [0, 1, 2, 3::nat]"
  by (simp add: upt_rec)

lemma less_4_cases: "(i::nat) < 4 \<longleftrightarrow> i = 0 \<or> i = 1 \<or> i = 2 \<or> i = 3"
  by auto

lemma all_less_4: "(\<forall>i<4. P i) \<longleftrightarrow> P (0::nat) \<and> P 1 \<and> P 2 \<and> P 3"
proof
  assume "\<forall>i<4. P i"
  then show "P 0 \<and> P 1 \<and> P 2 \<and> P 3" by simp
next
  assume a: "P 0 \<and> P 1 \<and> P 2 \<and> P 3"
  show "\<forall>i<4. P i"
  proof (intro allI impI)
    fix i :: nat
    assume "i < 4"
    then have "i = 0 \<or> i = 1 \<or> i = 2 \<or> i = 3" by auto
    then show "P i" using a by auto
  qed
qed

lemma operator_paren_of_nat:
  "r < 4 \<Longrightarrow> c < 4 \<Longrightarrow> operator_paren (of_nat r) (of_nat c) = Inr (r, c)"
  by (simp add: operator_paren_def word_le_nat_alt unat_of_nat)

lemma zero_cols_apply:
  "zero_cols r k m r' c' = (if r' = r \<and> k \<le> c' \<and> c' < 4 then Finite 0 else m r' c')"
proof (induction r k m rule: zero_cols.induct)
  case (1 rowIndex colIndex m)
  show ?case
  proof (cases "colIndex < 4")
    case True
    have "zero_cols rowIndex colIndex m r' c' =
        zero_cols rowIndex (colIndex + 1) (store_data m rowIndex colIndex (Finite 0)) r' c'"
      using True by (subst zero_cols.simps) simp
    also have "\<dots> = (if r' = rowIndex \<and> colIndex + 1 \<le> c' \<and> c' < 4 then Finite 0
        else store_data m rowIndex colIndex (Finite 0) r' c')"
      by (rule 1 [OF True])
    also have "\<dots> = (if r' = rowIndex \<and> colIndex \<le> c' \<and> c' < 4 then Finite 0 else m r' c')"
      using True by (auto simp: store_data_def)
    finally show ?thesis .
  next
    case False
    then show ?thesis by (subst zero_cols.simps) auto
  qed
qed

lemma zero_rows_apply:
  "zero_rows k m r' c' = (if k \<le> r' \<and> r' < 4 \<and> even (r' - k) \<and> c' < 4 then Finite 0 else m r' c')"
proof (induction k m rule: zero_rows.induct)
  case (1 rowIndex m)
  show ?case
  proof (cases "rowIndex < 4")
    case lt: True
    have "zero_rows rowIndex m r' c' =
        zero_rows ((rowIndex + 1) + 1) (zero_cols rowIndex 0 m) r' c'"
      using lt by (subst zero_rows.simps) simp
    also have "\<dots> = (if rowIndex + 1 + 1 \<le> r' \<and> r' < 4 \<and> even (r' - (rowIndex + 1 + 1)) \<and> c' < 4 then Finite 0
        else zero_cols rowIndex 0 m r' c')"
      by (rule 1 [OF lt])
    also have "\<dots> = (if rowIndex \<le> r' \<and> r' < 4 \<and> even (r' - rowIndex) \<and> c' < 4 then Finite 0 else m r' c')"
    proof (cases "r' = rowIndex")
      case True
      then show ?thesis using lt by (simp add: zero_cols_apply)
    next
      case False
      show ?thesis
      proof (cases "r' = rowIndex + 1")
        case True
        then show ?thesis by (simp add: zero_cols_apply)
      next
        case f2: False
        have "even (r' - (rowIndex + 1 + 1)) = even (r' - rowIndex)" if "rowIndex + 1 + 1 \<le> r'"
        proof -
          have "r' - rowIndex = (r' - (rowIndex + 1 + 1)) + 2" using that by simp
          then show ?thesis by simp
        qed
        then show ?thesis using False f2 by (auto simp: zero_cols_apply)
      qed
    qed
    finally show ?thesis .
  next
    case False
    then show ?thesis by (subst zero_rows.simps) auto
  qed
qed

lemma store_elements_apply:
  "store_elements xs r k m =
     (k + length xs, \<lambda>r' c'. if r' = r \<and> k \<le> c' \<and> c' < k + length xs then xs ! (c' - k) else m r' c')"
proof (induction xs arbitrary: k m)
  case Nil
  then show ?case by (auto simp: fun_eq_iff)
next
  case (Cons x xs)
  have "store_elements (x # xs) r k m = store_elements xs r (k + 1) (store_data m r k x)"
    by simp
  also have "\<dots> = (k + 1 + length xs,
      \<lambda>r' c'. if r' = r \<and> k + 1 \<le> c' \<and> c' < k + 1 + length xs then xs ! (c' - (k + 1))
         else store_data m r k x r' c')"
    by (rule Cons.IH)
  also have "\<dots> = (k + length (x # xs),
      \<lambda>r' c'. if r' = r \<and> k \<le> c' \<and> c' < k + length (x # xs) then (x # xs) ! (c' - k)
         else m r' c')"
    by (auto simp: fun_eq_iff store_data_def nth_Cons')
  finally show ?case .
qed

lemma init_rows_apply:
  "\<forall>rowVector \<in> set rows. length rowVector \<le> 4 \<Longrightarrow>
   init_rows rows k m =
     Inr (k + length rows,
          \<lambda>r c. if k \<le> r \<and> r < k + length rows \<and> c < 4
                 then (if c < length (rows ! (r - k)) then rows ! (r - k) ! c else Finite 0)
                 else m r c)"
proof (induction rows arbitrary: k m)
  case Nil
  then show ?case by (auto simp: fun_eq_iff)
next
  case (Cons rowVector rows)
  have len: "length rowVector \<le> 4" and rest: "\<forall>v \<in> set rows. length v \<le> 4"
    using Cons.prems by auto
  have "init_rows (rowVector # rows) k m =
      init_rows rows (k + 1) (zero_cols k (length rowVector) (snd (store_elements rowVector k 0 m)))"
    using len by (simp add: store_elements_apply)
  also have "\<dots> = Inr (k + 1 + length rows,
      \<lambda>r c. if k + 1 \<le> r \<and> r < k + 1 + length rows \<and> c < 4
             then (if c < length (rows ! (r - (k + 1))) then rows ! (r - (k + 1)) ! c else Finite 0)
             else zero_cols k (length rowVector) (snd (store_elements rowVector k 0 m)) r c)"
    by (rule Cons.IH [OF rest])
  also have "\<dots> = Inr (k + length (rowVector # rows),
      \<lambda>r c. if k \<le> r \<and> r < k + length (rowVector # rows) \<and> c < 4
             then (if c < length ((rowVector # rows) ! (r - k)) then (rowVector # rows) ! (r - k) ! c else Finite 0)
             else m r c)"
    using len by (auto simp: fun_eq_iff zero_cols_apply store_elements_apply nth_Cons')
  finally show ?case .
qed

lemma init_rows_long:
  "\<exists>rowVector \<in> set rows. length rowVector > 4 \<Longrightarrow>
     init_rows rows k m =
       Inl (out_of_range ''Cannot initialize a 4x4 matrix with a vector with more than 4 elements.'')"
  by (induction rows arbitrary: k m) (auto split: prod.splits)

lemma AtomicMatrix4x4_apply:
  assumes "length rows \<le> 4" and "\<forall>rowVector \<in> set rows. length rowVector \<le> 4"
  shows "AtomicMatrix4x4 storage rows =
     Inr (\<lambda>r c. if r < 4 \<and> c < 4
                 then (if r < length rows
                       then (if c < length (rows ! r) then rows ! r ! c else Finite 0)
                       else if even (r - length rows) then Finite 0 else storage r c)
                 else storage r c)"
  using assms
  by (auto simp: AtomicMatrix4x4_def init_rows_apply zero_rows_apply fun_eq_iff)

lemma AtomicMatrix4x4_default:
  "AtomicMatrix4x4 storage [] =
     Inr (\<lambda>r c. if (r = 0 \<or> r = 2) \<and> c < 4 then Finite 0 else storage r c)"
proof -
  have h: "r = 0 \<or> r = 2" if "r < 4" "even r" for r :: nat
    using that by (auto simp: less_4_cases)
  show ?thesis
    by (auto simp: AtomicMatrix4x4_apply fun_eq_iff dest: h)
qed

lemma for_each_fold:
  "(\<And>i s. i \<in> set xs \<Longrightarrow> body i s = Inr (f i s)) \<Longrightarrow> for_each xs body s = Inr (fold f xs s)"
  by (induction xs arbitrary: s) simp_all

lemma fold_store_cols:
  "fold (\<lambda>c m. store_data m r c (f c)) cs m r' c' =
     (if r' = r \<and> c' \<in> set cs then f c' else m r' c')"
  by (induction cs arbitrary: m) (auto simp: store_data_def)

lemma fold_store_rows:
  "fold (\<lambda>r. fold (\<lambda>c m. store_data m r c (f r c)) cs) rs m r' c' =
     (if r' \<in> set rs \<and> c' \<in> set cs then f r' c' else m r' c')"
  by (induction rs arbitrary: m) (auto simp: fold_store_cols)

lemma copy_cells_apply:
  "copy_cells this other r c = (if r < 4 \<and> c < 4 then other r c else this r c)"
  by (simp add: copy_cells_def fold_store_rows)

lemma dot_step_in_range:
  "r < 4 \<Longrightarrow> c < 4 \<Longrightarrow> i < 4 \<Longrightarrow>
     dot_step A B r c i d = Inr (double_add d (double_mul (A r i) (B i c)))"
  by (simp add: dot_step_def operator_paren_of_nat load_def)

lemma dot_loop:
  assumes "r < 4" "c < 4"
  shows "for_each [0..<4] (dot_step A B r c) (Finite 0) =
     Inr (fold (\<lambda>k d. double_add d (double_mul (A r k) (B k c))) [0..<4] (Finite 0))"
  by (rule for_each_fold) (simp add: dot_step_in_range assms)

lemma dot_fold:
  "fold (\<lambda>k d. double_add d (f k)) [0..<4] (Finite 0) =
     double_add (double_add (double_add (double_add (Finite 0) (f 0)) (f 1)) (f 2)) (f 3)"
  by (simp add: upt_4)

lemma operator_mul_apply:
  "operator_mul storage A B =
     Inr (\<lambda>r c. if r < 4 \<and> c < 4
                 then fold (\<lambda>k d. double_add d (double_mul (A r k) (B k c))) [0..<4] (Finite 0)
                 else storage r c)"
proof -
  let ?D = "\<lambda>r c. if (r = 0 \<or> r = 2) \<and> c < 4 then Finite 0 else storage r c"
  let ?dot = "\<lambda>r c. fold (\<lambda>k d. double_add d (double_mul (A r k) (B k c))) [0..<4] (Finite 0)"
  let ?inner = "\<lambda>rowIndex colIndex m.
      (case for_each [0..<4] (dot_step A B rowIndex colIndex) (Finite 0) of
         Inl e \<Rightarrow> Inl e
       | Inr dotProduct \<Rightarrow>
           (case operator_paren (of_nat rowIndex) (of_nat colIndex) of
              Inl e \<Rightarrow> Inl e
            | Inr cell \<Rightarrow> Inr (store m cell dotProduct)))"
  have inner: "?inner r c m = Inr (store_data m r c (?dot r c))" if "r < 4" "c < 4" for r c m
    using that by (simp add: dot_loop operator_paren_of_nat store_def)
  have cols: "for_each [0..<4] (?inner r) m = Inr (fold (\<lambda>c m. store_data m r c (?dot r c)) [0..<4] m)"
    if "r < 4" for r m
    by (rule for_each_fold) (simp add: inner that)
  have rows: "for_each [0..<4] (\<lambda>r. for_each [0..<4] (?inner r)) m =
      Inr (fold (\<lambda>r. fold (\<lambda>c m. store_data m r c (?dot r c)) [0..<4]) [0..<4] m)" for m
    by (rule for_each_fold) (simp add: cols)
  have "operator_mul storage A B =
      Inr (fold (\<lambda>r. fold (\<lambda>c m. store_data m r c (?dot r c)) [0..<4]) [0..<4] ?D)"
    unfolding operator_mul_def AtomicMatrix4x4_default by (simp add: rows)
  also have "fold (\<lambda>r. fold (\<lambda>c m. store_data m r c (?dot r c)) [0..<4]) [0..<4] ?D =
      (\<lambda>r c. if r < 4 \<and> c < 4 then ?dot r c else storage r c)"
    by (auto simp: fun_eq_iff fold_store_rows)
  finally show ?thesis .
qed

lemma operator_mul_cells:
  "operator_mul storage A B =
     Inr (\<lambda>r c. if r < 4 \<and> c < 4
                 then double_add (double_add (double_add (double_add (Finite 0)
                        (double_mul (A r 0) (B 0 c))) (double_mul (A r 1) (B 1 c)))
                        (double_mul (A r 2) (B 2 c))) (double_mul (A r 3) (B 3 c))
                 else storage r c)"
  by (simp add: operator_mul_apply dot_fold cong: if_cong)

lemma for_each_return_all:
  "(\<And>i. i \<in> set xs \<Longrightarrow> body i = Inr (if P i then None else Some False)) \<Longrightarrow>
     for_each_return xs body = Inr (if \<forall>i \<in> set xs. P i then None else Some False)"
  by (induction xs) auto

lemma operator_eq_apply:
  "operator_eq A B = Inr (\<forall>r<4. \<forall>c<4. \<not> double_ne (A r c) (B r c))"
proof -
  let ?cell = "\<lambda>rowIndex colIndex.
      (case operator_paren (of_nat rowIndex) (of_nat colIndex) of
         Inl e \<Rightarrow> Inl e
       | Inr l \<Rightarrow>
           (case operator_paren (of_nat rowIndex) (of_nat colIndex) of
              Inl e \<Rightarrow> Inl e
            | Inr r \<Rightarrow>
                if double_ne (load A l) (load B r) then Inr (Some False)
                else Inr None))"
  have cell: "?cell r c = Inr (if \<not> double_ne (A r c) (B r c) then None else Some False)"
    if "r < 4" "c < 4" for r c
    using that by (simp add: operator_paren_of_nat load_def)
  have row: "for_each_return [0..<4] (?cell r) =
      Inr (if \<forall>c \<in> set [0..<4]. \<not> double_ne (A r c) (B r c) then None else Some False)"
    if "r < 4" for r
    by (rule for_each_return_all) (simp add: cell that)
  have all: "for_each_return [0..<4] (\<lambda>r. for_each_return [0..<4] (?cell r)) =
      Inr (if \<forall>r \<in> set [0..<4]. \<forall>c \<in> set [0..<4]. \<not> double_ne (A r c) (B r c)
           then None else Some False)"
    by (rule for_each_return_all) (simp add: row)
  have "(\<forall>r \<in> set [0..<4]. \<forall>c \<in> set [0..<4]. \<not> double_ne (A r c) (B r c)) \<longleftrightarrow>
      (\<forall>r<4. \<forall>c<4. \<not> double_ne (A r c) (B r c))"
    by (simp add: Ball_def)
  then show ?thesis
    unfolding operator_eq_def all by simp
qed

lemma sum_less_4: "(\<Sum>k<4. f k) = f 0 + f 1 + f 2 + f 3" for f :: "nat \<Rightarrow> real"
proof -
  have "{..<4::nat} = {0, 1, 2, 3}" by auto
  then show ?thesis by simp
qed

lemma AtomicMatrix4x4_full:
  assumes "length rows = 4" and "\<forall>rowVector \<in> set rows. length rowVector = 4"
  shows "AtomicMatrix4x4 storage rows =
     Inr (\<lambda>r c. if r < 4 \<and> c < 4 then rows ! r ! c else storage r c)"
proof -
  have "length (rows ! r) = 4" if "r < 4" for r
    using assms that by simp
  then show ?thesis
    using assms by (simp add: AtomicMatrix4x4_apply fun_eq_iff)
qed

lemma isCorrect_apply:
  "isCorrect storage this =
     Inr (\<forall>r<4. \<forall>c<4. \<not> double_ne (m_dotProduct this r c)
            (fold (\<lambda>k d. double_add d (double_mul (m_leftMat this r k) (m_rightMat this k c)))
               [0..<4] (Finite 0)))"
  by (simp add: isCorrect_def operator_mul_apply operator_eq_apply)

lemma count_correct_apply:
  "count_correct storage calculations n =
     Inr (n + length (filter (\<lambda>calculation. isCorrect storage calculation = Inr True) calculations))"
  by (induction calculations arbitrary: n) (simp_all add: isCorrect_apply)

lemma calculateAccuracy_apply:
  "calculateAccuracy storage this =
     Inr (double_div
       (double_mul
          (double_of_int (int (length (filter
             (\<lambda>calculation. isCorrect storage calculation = Inr True) (m_calculations this)))))
          (Finite 100))
       (double_of_int (int (length (m_calculations this)))))"
  by (simp add: calculateAccuracy_def count_correct_apply)

lemma new_MultiplicationRecorder_cells:
  "r < 4 \<Longrightarrow> c < 4 \<Longrightarrow>
     m_leftMat (new_MultiplicationRecorder storage L R P) r c = L r c \<and>
     m_rightMat (new_MultiplicationRecorder storage L R P) r c = R r c \<and>
     m_dotProduct (new_MultiplicationRecorder storage L R P) r c = P r c"
  by (simp add: new_MultiplicationRecorder_def copy_constructor_def copy_cells_apply)

lemma copy_MultiplicationRecorder_cells:
  "r < 4 \<Longrightarrow> c < 4 \<Longrightarrow>
     m_leftMat (copy_MultiplicationRecorder storage other) r c = m_leftMat other r c \<and>
     m_rightMat (copy_MultiplicationRecorder storage other) r c = m_rightMat other r c \<and>
     m_dotProduct (copy_MultiplicationRecorder storage other) r c = m_dotProduct other r c"
  by (simp add: copy_MultiplicationRecorder_def copy_constructor_def copy_cells_apply)

lemma operator_paren_mod_4:
  "operator_paren (a mod 4) (b mod 4) = Inr (unat (a mod 4), unat (b mod 4))"
proof -
  have "a mod 4 < 4" "b mod 4 < 4"
    by (simp_all add: word_mod_less_divisor)
  then show ?thesis
    by (simp add: operator_paren_def not_le)
qed

lemma modify_once_calculations:
  "\<exists>modified. modify_once rand1 rand2 rand3 rand4 rand5 rand6 this = Inr modified \<and>
     m_calculations modified = m_calculations this"
  by (simp add: modify_once_def set_cell_def operator_paren_mod_4)

lemma record_calculation_apply:
  "\<exists>product. operator_mul storage (m_mat1 this) (m_mat2 this) = Inr product \<and>
     record_calculation storage this =
       Inr (this\<lparr>m_calculations := m_calculations this @
              [copy_MultiplicationRecorder storage
                 (new_MultiplicationRecorder storage (m_mat1 this) (m_mat2 this) product)]\<rparr>)"
  by (simp add: record_calculation_def operator_mul_apply)

lemma isCorrect_cells:
  "isCorrect storage this =
     Inr (\<forall>r<4. \<forall>c<4. \<not> double_ne (m_dotProduct this r c)
            (double_add (double_add (double_add (double_add (Finite 0)
               (double_mul (m_leftMat this r 0) (m_rightMat this 0 c)))
               (double_mul (m_leftMat this r 1) (m_rightMat this 1 c)))
               (double_mul (m_leftMat this r 2) (m_rightMat this 2 c)))
               (double_mul (m_leftMat this r 3) (m_rightMat this 3 c))))"
  by (simp add: isCorrect_apply dot_fold)

lemma isCorrect_right_calculation: "isCorrect storage right_calculation = Inr True"
  by (simp add: isCorrect_cells all_less_4 right_calculation_def new_MultiplicationRecorder_cells
      filled_def round_double_0 round_double_numeral double_ne_Finite)

lemma isCorrect_wrong_calculation: "isCorrect storage wrong_calculation = Inr False"
  by (auto simp: isCorrect_cells wrong_calculation_def new_MultiplicationRecorder_cells
      filled_def round_double_0 round_double_numeral double_ne_Finite intro: exI [of _ 0])

lemma double_of_int_nat: "k < 2 ^ 53 \<Longrightarrow> double_of_int (int k) = Finite (real k)"
  by (simp add: double_of_int_def round_double_of_nat)

lemma double_of_int_0: "double_of_int 0 = Finite 0"
  by (simp add: double_of_int_def round_double_0)

lemma double_of_int_1: "double_of_int 1 = Finite 1"
  by (simp add: double_of_int_def round_double_1)

lemma double_of_int_numeral:
  "numeral k < (9007199254740992::int) \<Longrightarrow> double_of_int (numeral k) = Finite (numeral k)"
  by (simp add: double_of_int_def round_double_numeral)

lemma accuracy_small:
  assumes "n \<le> len" and "len \<noteq> 0" and "len \<le> 2 ^ 46"
  shows "double_div (double_mul (double_of_int (int n)) (Finite 100)) (double_of_int (int len)) =
     Defined (round_double (100 * real n / real len))"
proof -
  have "(2::nat) ^ 46 < 2 ^ 53"
    by simp
  then have t: "len < 2 ^ 53" and n: "n < 2 ^ 53"
    using assms(1,3) by linarith+
  have "n * 100 \<le> 2 ^ 46 * 100"
    using assms(1,3) by simp
  also have "(2::nat) ^ 46 * 100 < 2 ^ 53"
    by simp
  finally have p: "n * 100 < 2 ^ 53" .
  have "double_mul (double_of_int (int n)) (Finite 100) = round_double (real (n * 100))"
    using n by (simp add: double_of_int_nat)
  also have "\<dots> = Finite (real (n * 100))"
    by (rule round_double_of_nat [OF p])
  finally show ?thesis
    using assms(2) t by (simp add: double_of_int_nat mult.commute)
qed

section \<open>The claims\<close>

text \<open>
  Claim C7. For every (row, col) pair with row >= 4 or col >= 4, both the cell read and
  the cell write fail with an IndexError (the \<^verbatim>\<open>std::out_of_range\<close> of \<^verbatim>\<open>operator()\<close>), and
  for every (row, col) in [0,4)x[0,4) they succeed: the read returns the content of the
  cell and the write changes that cell only.
\<close>

theorem cell_access_bounds_checked:
  "(rowIndex \<ge> 4 \<or> colIndex \<ge> 4 \<longrightarrow>
      (\<exists>e. get_cell m rowIndex colIndex = Inl e \<and> IndexError e) \<and>
      (\<exists>e. set_cell m rowIndex colIndex v = Inl e \<and> IndexError e)) \<and>
   (rowIndex < 4 \<and> colIndex < 4 \<longrightarrow>
      get_cell m rowIndex colIndex = Inr (m (unat rowIndex) (unat colIndex)) \<and>
      set_cell m rowIndex colIndex v =
        Inr (m(unat rowIndex := (m (unat rowIndex))(unat colIndex := v))))"
  by (auto simp: get_cell_def set_cell_def operator_paren_def IndexError_def load_def
      store_def store_data_def)

theorem cell_access_bounds_checked_witness:
  "((4::uint) \<ge> 4 \<or> (0::uint) \<ge> 4) \<and>
   (\<exists>e. get_cell (filled (Finite 1)) 4 0 = Inl e \<and> IndexError e) \<and>
   (\<exists>e. set_cell (filled (Finite 1)) 4 0 (Finite 5) = Inl e \<and> IndexError e) \<and>
   ((3::uint) < 4 \<and> (2::uint) < 4) \<and>
   get_cell (filled (Finite 1)) 3 2 = Inr (Finite 1) \<and>
   (\<exists>m'. set_cell (filled (Finite 1)) 3 2 (Finite 5) = Inr m' \<and>
      m' 3 2 = Finite 5 \<and> m' 3 1 = Finite 1)"
  using cell_access_bounds_checked
      [where rowIndex = 4 and colIndex = 0 and m = "filled (Finite 1)" and v = "Finite 5"]
    cell_access_bounds_checked
      [where rowIndex = 3 and colIndex = 2 and m = "filled (Finite 1)" and v = "Finite 5"]
  by (simp add: filled_def)

text \<open>
  Claim C8. Constructing a matrix from more than 4 rows, or from an initializer in which
  some row has more than 4 values, fails with a ConfigurationError (one of the two
  \<^verbatim>\<open>std::out_of_range\<close> exceptions of the constructor): no matrix is returned.
\<close>

theorem constructor_rejects_oversized:
  "length values > 4 \<or> (\<exists>rowVector \<in> set values. length rowVector > 4) \<Longrightarrow>
     \<exists>e. AtomicMatrix4x4 storage values = Inl e \<and> ConfigurationError e"
proof (cases "length values > 4")
  case True
  then show ?thesis by (simp add: AtomicMatrix4x4_def ConfigurationError_def)
next
  case False
  assume "length values > 4 \<or> (\<exists>rowVector \<in> set values. length rowVector > 4)"
  with False have "\<exists>rowVector \<in> set values. length rowVector > 4" by simp
  then show ?thesis
    using False by (simp add: AtomicMatrix4x4_def init_rows_long ConfigurationError_def)
qed

theorem constructor_rejects_oversized_witness:
  "(length [[], [], [], [], []::double list] > 4 \<or>
      (\<exists>rowVector \<in> set [[], [], [], [], []::double list]. length rowVector > 4)) \<and>
   (\<exists>e. AtomicMatrix4x4 (filled (Finite 0)) [[], [], [], [], []] = Inl e \<and>
      ConfigurationError e) \<and>
   (length [map Finite [1, 2, 3, 4, 5]] > 4 \<or>
      (\<exists>rowVector \<in> set [map Finite [1, 2, 3, 4, 5]]. length rowVector > 4)) \<and>
   (\<exists>e. AtomicMatrix4x4 (filled (Finite 0)) [map Finite [1, 2, 3, 4, 5]] = Inl e \<and>
      ConfigurationError e)"
  using constructor_rejects_oversized [of "[[], [], [], [], []]" "filled (Finite 0)"]
    constructor_rejects_oversized [of "[map Finite [1, 2, 3, 4, 5]]" "filled (Finite 0)"]
  by simp

text \<open>
  Claim C1 says that the constructor fills every omitted row with 0.0. On the empty
  initializer list (the default argument) the constructor stores zeros into rows 0 and 2
  only: rows 1 and 3 keep what the storage held, here 7.
\<close>

theorem default_constructor_skips_rows:
  "\<exists>m. AtomicMatrix4x4 (filled (Finite 7)) [] = Inr m \<and>
     m 0 0 = Finite 0 \<and> m 1 0 = Finite 7 \<and> m 2 0 = Finite 0 \<and> m 3 0 = Finite 7"
  by (simp add: AtomicMatrix4x4_default filled_def)

text \<open>
  Claim C3 says that every cell of the product equals the sum over k of
  A[i][k] * B[k][j]. The source rounds each product and each sum to a double: with row 0
  of the left operand \<open>2 ^ 53, 1, 0, 0\<close> and column 0 of the right operand \<open>1, 1, 0, 0\<close>
  the sum of the products is \<open>2 ^ 53 + 1\<close>, and the cell of the product holds \<open>2 ^ 53\<close>.
\<close>

theorem multiply_rounds_the_sum:
  "product_cell (filled (Finite 0)) rounding_left rounding_right 0 0 =
     Inr (Finite 9007199254740992) \<and>
   (9007199254740992 * 1 + 1 * 1 + 0 * 0 + 0 * 0 :: real) = 9007199254740993 \<and>
   product_cell (filled (Finite 0)) rounding_left rounding_right 0 0 \<noteq>
     Inr (Finite 9007199254740993)"
proof -
  have "product_cell (filled (Finite 0)) rounding_left rounding_right 0 0 =
      Inr (double_add (double_add (double_add (double_add (Finite 0)
        (double_mul (rounding_left 0 0) (rounding_right 0 0)))
        (double_mul (rounding_left 0 1) (rounding_right 1 0)))
        (double_mul (rounding_left 0 2) (rounding_right 2 0)))
        (double_mul (rounding_left 0 3) (rounding_right 3 0)))"
    by (simp add: product_cell_def operator_mul_cells get_cell_def operator_paren_def load_def)
  also have "\<dots> = Inr (Finite 9007199254740992)"
    by (simp add: rounding_left_def rounding_right_def store_data_def filled_def
        round_double_0 round_double_1 round_double_numeral round_double_2_53
        round_double_2_53_plus_1)
  finally show ?thesis
    by simp
qed

text \<open>
  Claim C3, amended. For every pair of 4x4 matrices A and B the product is returned (no
  exception), and its cell at row i, column j is the sum of the products A[i][k] * B[k][j]
  accumulated from 0.0 in the order k = 0, 1, 2, 3, every product and every sum rounded to
  a double. It is the exact sum over k in [0,4) of A[i][k] * B[k][j] when the operand
  cells are finite and every product and every partial sum is a double.
\<close>

theorem multiply_is_matrix_product:
  "i < 4 \<Longrightarrow> j < 4 \<Longrightarrow>
     \<exists>C. operator_mul storage A B = Inr C \<and>
       C i j =
         double_add (double_add (double_add (double_add (Finite 0)
           (double_mul (A i 0) (B 0 j))) (double_mul (A i 1) (B 1 j)))
           (double_mul (A i 2) (B 2 j))) (double_mul (A i 3) (B 3 j)) \<and>
       ((\<forall>k<4. A i k = Finite (a k) \<and> B k j = Finite (b k) \<and> is_double (a k * b k)) \<and>
        is_double (a 0 * b 0 + a 1 * b 1) \<and>
        is_double (a 0 * b 0 + a 1 * b 1 + a 2 * b 2) \<and>
        is_double (a 0 * b 0 + a 1 * b 1 + a 2 * b 2 + a 3 * b 3) \<longrightarrow>
        C i j = Finite (\<Sum>k<4. a k * b k))"
  by (simp add: operator_mul_cells all_less_4 sum_less_4 is_double_def)

theorem multiply_is_matrix_product_witness:
  "(1::nat) < 4 \<and> (3::nat) < 4 \<and>
   filled (Finite 1) 1 0 = Finite 1 \<and> filled (Finite 2) 0 3 = Finite 2 \<and>
   is_double (1 * 2) \<and> is_double (1 * 2 + 1 * 2) \<and> is_double (1 * 2 + 1 * 2 + 1 * 2) \<and>
   is_double (1 * 2 + 1 * 2 + 1 * 2 + 1 * 2) \<and>
   (\<exists>C. operator_mul (filled (Finite 7)) (filled (Finite 1)) (filled (Finite 2)) = Inr C \<and>
      C 1 3 = Finite 8)"
  using multiply_is_matrix_product [where i = 1 and j = 3 and storage = "filled (Finite 7)"
      and A = "filled (Finite 1)" and B = "filled (Finite 2)"
      and a = "\<lambda>k. 1" and b = "\<lambda>k. 2"]
  by (simp add: filled_def is_double_numeral round_double_0 round_double_numeral)

text \<open>
  Claim C10. Whatever the default construction of the result object left in its cells,
  the product stores into each of the 16 cells the value that its inner loop computes
  from row r of the left operand and column c of the right operand: two runs on the same
  operands whose result objects start from different storage contents agree on all 16
  cells.
\<close>

theorem multiply_writes_every_cell:
  "\<exists>C C'. operator_mul storage A B = Inr C \<and> operator_mul storage' A B = Inr C' \<and>
     (\<forall>r<4. \<forall>c<4.
        C r c =
          double_add (double_add (double_add (double_add (Finite 0)
            (double_mul (A r 0) (B 0 c))) (double_mul (A r 1) (B 1 c)))
            (double_mul (A r 2) (B 2 c))) (double_mul (A r 3) (B 3 c)) \<and>
        C r c = C' r c)"
  by (simp add: operator_mul_cells)

theorem multiply_writes_every_cell_witness:
  "\<exists>C C'. operator_mul (filled (Finite 0)) (filled (Finite 1)) (filled (Finite 2)) = Inr C \<and>
     operator_mul (filled (Finite 7)) (filled (Finite 1)) (filled (Finite 2)) = Inr C' \<and>
     (\<forall>r<4. \<forall>c<4. C r c = Finite 8 \<and> C r c = C' r c)"
  using multiply_writes_every_cell [where storage = "filled (Finite 0)"
      and storage' = "filled (Finite 7)" and A = "filled (Finite 1)" and B = "filled (Finite 2)"]
  by (simp add: filled_def round_double_numeral)

text \<open>
  Claim C6. The equality comparison returns true if and only if all 16 pairs of
  corresponding cells compare equal, with no tolerance: where no cell of the left operand
  is NaN, if and only if all 16 pairs of corresponding cells are the same value.
\<close>

theorem equality_is_cellwise:
  "operator_eq A B = Inr (\<forall>r<4. \<forall>c<4. \<not> double_ne (A r c) (B r c)) \<and>
   ((\<forall>r<4. \<forall>c<4. A r c \<noteq> NaN) \<longrightarrow>
      operator_eq A B = Inr (\<forall>r<4. \<forall>c<4. A r c = B r c))"
proof -
  have "(\<forall>r<4. \<forall>c<4. \<not> double_ne (A r c) (B r c)) = (\<forall>r<4. \<forall>c<4. A r c = B r c)"
    if "\<forall>r<4. \<forall>c<4. A r c \<noteq> NaN"
    using that by (auto simp: double_ne_def)
  then show ?thesis
    by (simp add: operator_eq_apply)
qed

theorem equality_is_cellwise_witness:
  "filled (Finite 1) 0 0 \<noteq> NaN \<and>
   operator_eq (filled (Finite 1)) (filled (Finite 1)) = Inr True \<and>
   operator_eq (filled (Finite 1)) (filled (Finite 2)) = Inr False \<and>
   operator_eq (filled NaN) (filled NaN) = Inr False"
  using equality_is_cellwise [where A = "filled (Finite 1)" and B = "filled (Finite 1)"]
    equality_is_cellwise [where A = "filled (Finite 1)" and B = "filled (Finite 2)"]
    equality_is_cellwise [where A = "filled NaN" and B = "filled NaN"]
  by (auto simp: filled_def double_ne_def intro: exI [of _ 0])

text \<open>
  Claim C4. For the literal matrices M1 = [[1,2,0,1],[0,1,1,0],[1,1,0,2],[1,0,1,0]] and
  M2 = [[2,2,0,1],[1,1,1,2],[1,1,3,2],[1,2,1,1]], the product of M1 and M2 compares equal
  to [[5,6,3,6],[2,2,4,4],[5,7,3,5],[3,3,3,3]], the product of M2 and M1 compares equal to
  [[3,6,3,2],[4,4,3,3],[6,6,3,7],[3,5,3,3]], and the two products compare unequal.
\<close>

theorem literal_products:
  "\<exists>M1 M2 E12 E21 P12 P21.
     AtomicMatrix4x4 storage
       (map (map Finite) [[1, 2, 0, 1], [0, 1, 1, 0], [1, 1, 0, 2], [1, 0, 1, 0]]) = Inr M1 \<and>
     AtomicMatrix4x4 storage
       (map (map Finite) [[2, 2, 0, 1], [1, 1, 1, 2], [1, 1, 3, 2], [1, 2, 1, 1]]) = Inr M2 \<and>
     AtomicMatrix4x4 storage
       (map (map Finite) [[5, 6, 3, 6], [2, 2, 4, 4], [5, 7, 3, 5], [3, 3, 3, 3]]) = Inr E12 \<and>
     AtomicMatrix4x4 storage
       (map (map Finite) [[3, 6, 3, 2], [4, 4, 3, 3], [6, 6, 3, 7], [3, 5, 3, 3]]) = Inr E21 \<and>
     operator_mul storage M1 M2 = Inr P12 \<and> operator_eq P12 E12 = Inr True \<and>
     operator_mul storage M2 M1 = Inr P21 \<and> operator_eq P21 E21 = Inr True \<and>
     operator_ne P12 P21 = Inr True"
proof -
  let ?v1 = "map (map Finite) [[1, 2, 0, 1], [0, 1, 1, 0], [1, 1, 0, 2], [1, 0, 1, 0]]"
  let ?v2 = "map (map Finite) [[2, 2, 0, 1], [1, 1, 1, 2], [1, 1, 3, 2], [1, 2, 1, 1]]"
  let ?e12 = "map (map Finite) [[5, 6, 3, 6], [2, 2, 4, 4], [5, 7, 3, 5], [3, 3, 3, 3]]"
  let ?e21 = "map (map Finite) [[3, 6, 3, 2], [4, 4, 3, 3], [6, 6, 3, 7], [3, 5, 3, 3]]"
  let ?lit = "\<lambda>rows r c. if r < 4 \<and> c < 4 then rows ! r ! c else storage r (c::nat)"
  let ?prod = "\<lambda>A B r c. if r < 4 \<and> c < 4
      then double_add (double_add (double_add (double_add (Finite 0)
             (double_mul (A r 0) (B 0 c))) (double_mul (A r 1) (B 1 c)))
             (double_mul (A r 2) (B 2 c))) (double_mul (A r 3) (B 3 c))
      else storage r (c::nat)"
  have m1: "AtomicMatrix4x4 storage ?v1 = Inr (?lit ?v1)"
    and m2: "AtomicMatrix4x4 storage ?v2 = Inr (?lit ?v2)"
    and e12: "AtomicMatrix4x4 storage ?e12 = Inr (?lit ?e12)"
    and e21: "AtomicMatrix4x4 storage ?e21 = Inr (?lit ?e21)"
    by (rule AtomicMatrix4x4_full, simp, simp)+
  have p12: "operator_mul storage (?lit ?v1) (?lit ?v2) = Inr (?prod (?lit ?v1) (?lit ?v2))"
    and p21: "operator_mul storage (?lit ?v2) (?lit ?v1) = Inr (?prod (?lit ?v2) (?lit ?v1))"
    by (rule operator_mul_cells)+
  have q12: "operator_eq (?prod (?lit ?v1) (?lit ?v2)) (?lit ?e12) = Inr True"
    by (simp add: operator_eq_apply all_less_4 round_double_0 round_double_1
        round_double_numeral double_ne_Finite)
  have q21: "operator_eq (?prod (?lit ?v2) (?lit ?v1)) (?lit ?e21) = Inr True"
    by (simp add: operator_eq_apply all_less_4 round_double_0 round_double_1
        round_double_numeral double_ne_Finite)
  have ne: "operator_ne (?prod (?lit ?v1) (?lit ?v2)) (?prod (?lit ?v2) (?lit ?v1)) = Inr True"
    by (simp add: operator_ne_def operator_eq_apply all_less_4 round_double_0 round_double_1
        round_double_numeral double_ne_Finite)
  show ?thesis
    apply (intro exI conjI)
            apply (rule m1)
           apply (rule m2)
          apply (rule e12)
         apply (rule e21)
        apply (rule p12)
       apply (rule q12)
      apply (rule p21)
     apply (rule q21)
    apply (rule ne)
    done
qed

text \<open>
  Claim C5. A MultiplicationRecorder holds copies of its left operand, right operand and
  claimed product as they were at construction; \<^verbatim>\<open>isCorrect\<close> returns true if and only
  if the product of the stored operands compares equal to the stored product cell by cell;
  and a later change of the matrices it was constructed from (a pass of the modifier over
  the fixture's two matrices) leaves the recorder, and so its verdict, as it was.
\<close>

theorem recorder_holds_copies:
  "(\<forall>r<4. \<forall>c<4.
      m_leftMat (new_MultiplicationRecorder storage L R P) r c = L r c \<and>
      m_rightMat (new_MultiplicationRecorder storage L R P) r c = R r c \<and>
      m_dotProduct (new_MultiplicationRecorder storage L R P) r c = P r c) \<and>
   (\<exists>product.
      operator_mul storage' (m_leftMat this) (m_rightMat this) = Inr product \<and>
      isCorrect storage' this = operator_eq (m_dotProduct this) product \<and>
      isCorrect storage' this =
        Inr (\<forall>r<4. \<forall>c<4. \<not> double_ne (m_dotProduct this r c) (product r c))) \<and>
   (\<exists>recorded modified.
      record_calculation storage fixture = Inr recorded \<and>
      modify_once rowA colA valA rowB colB valB recorded = Inr modified \<and>
      m_calculations modified = m_calculations recorded \<and>
      (\<forall>r<4. \<forall>c<4.
         m_leftMat (last (m_calculations modified)) r c = m_mat1 fixture r c \<and>
         m_rightMat (last (m_calculations modified)) r c = m_mat2 fixture r c) \<and>
      isCorrect storage' (last (m_calculations modified)) =
        isCorrect storage' (last (m_calculations recorded)))"
proof (intro conjI)
  show "\<forall>r<4. \<forall>c<4.
      m_leftMat (new_MultiplicationRecorder storage L R P) r c = L r c \<and>
      m_rightMat (new_MultiplicationRecorder storage L R P) r c = R r c \<and>
      m_dotProduct (new_MultiplicationRecorder storage L R P) r c = P r c"
    by (simp add: new_MultiplicationRecorder_cells)
next
  show "\<exists>product.
      operator_mul storage' (m_leftMat this) (m_rightMat this) = Inr product \<and>
      isCorrect storage' this = operator_eq (m_dotProduct this) product \<and>
      isCorrect storage' this =
        Inr (\<forall>r<4. \<forall>c<4. \<not> double_ne (m_dotProduct this r c) (product r c))"
    by (simp add: isCorrect_def operator_mul_apply operator_eq_apply)
next
  obtain product where
    rec: "record_calculation storage fixture =
       Inr (fixture\<lparr>m_calculations := m_calculations fixture @
              [copy_MultiplicationRecorder storage
                 (new_MultiplicationRecorder storage (m_mat1 fixture) (m_mat2 fixture) product)]\<rparr>)"
    using record_calculation_apply by blast
  let ?recorded = "fixture\<lparr>m_calculations := m_calculations fixture @
              [copy_MultiplicationRecorder storage
                 (new_MultiplicationRecorder storage (m_mat1 fixture) (m_mat2 fixture) product)]\<rparr>"
  obtain modified where
    md: "modify_once rowA colA valA rowB colB valB ?recorded = Inr modified"
      "m_calculations modified = m_calculations ?recorded"
    using modify_once_calculations by blast
  have "\<forall>r<4. \<forall>c<4.
         m_leftMat (last (m_calculations modified)) r c = m_mat1 fixture r c \<and>
         m_rightMat (last (m_calculations modified)) r c = m_mat2 fixture r c"
    by (simp add: md(2) copy_MultiplicationRecorder_cells new_MultiplicationRecorder_cells)
  with rec md show "\<exists>recorded modified.
      record_calculation storage fixture = Inr recorded \<and>
      modify_once rowA colA valA rowB colB valB recorded = Inr modified \<and>
      m_calculations modified = m_calculations recorded \<and>
      (\<forall>r<4. \<forall>c<4.
         m_leftMat (last (m_calculations modified)) r c = m_mat1 fixture r c \<and>
         m_rightMat (last (m_calculations modified)) r c = m_mat2 fixture r c) \<and>
      isCorrect storage' (last (m_calculations modified)) =
        isCorrect storage' (last (m_calculations recorded))"
    by simp
qed

theorem recorder_holds_copies_witness:
  "\<exists>recorded modified.
      record_calculation (filled (Finite 0)) idle_fixture = Inr recorded \<and>
      modify_once 4 8 7 5 6 2 recorded = Inr modified \<and>
      m_mat1 idle_fixture 0 0 = Finite 1 \<and> m_mat1 modified 0 0 = Finite 3 \<and>
      m_leftMat (last (m_calculations modified)) 0 0 = Finite 1 \<and>
      isCorrect (filled (Finite 7)) (last (m_calculations modified)) = Inr True"
proof -
  obtain recorded modified where
    h: "record_calculation (filled (Finite 0)) idle_fixture = Inr recorded"
      "modify_once 4 8 7 5 6 2 recorded = Inr modified"
      "m_calculations modified = m_calculations recorded"
      "\<forall>r<4. \<forall>c<4.
         m_leftMat (last (m_calculations modified)) r c = m_mat1 idle_fixture r c \<and>
         m_rightMat (last (m_calculations modified)) r c = m_mat2 idle_fixture r c"
    using recorder_holds_copies [where storage = "filled (Finite 0)" and fixture = idle_fixture
        and rowA = 4 and colA = 8 and valA = 7 and rowB = 5 and colB = 6 and valB = 2
        and storage' = "filled (Finite 7)" and L = "filled (Finite 1)" and R = "filled (Finite 2)"
        and P = "filled (Finite 8)" and this = right_calculation]
    by blast
  have orig: "m_mat1 idle_fixture 0 0 = Finite 1"
    by (simp add: idle_fixture_def filled_def)
  have changed: "m_mat1 modified 0 0 = Finite 3"
    using h(1,2)
    by (auto simp: record_calculation_def operator_mul_apply modify_once_def set_cell_def
        operator_paren_def word_le_nat_alt store_def store_data_def idle_fixture_def filled_def
        double_of_int_numeral)
  have kept: "m_leftMat (last (m_calculations modified)) 0 0 = Finite 1"
    using h(4) orig by simp
  have verdict: "isCorrect (filled (Finite 7)) (last (m_calculations modified)) = Inr True"
    using h(1)
    by (auto simp: h(3) record_calculation_def operator_mul_cells isCorrect_cells
        copy_MultiplicationRecorder_cells new_MultiplicationRecorder_cells double_ne_Finite
        idle_fixture_def filled_def round_double_0 round_double_numeral)
  show ?thesis
    using h(1,2) orig changed kept verdict by blast
qed

text \<open>
  Claim C9. Calling \<^verbatim>\<open>runTestVariableModifier\<close> while the modifier is running changes
  nothing: the flag, the matrices, the calculations and the number of launched threads stay
  as they are. From the idle state it sets the flag and launches one thread, and a second
  call right after it changes nothing more.
\<close>

theorem start_is_idempotent:
  "(m_shouldModificationsContinue this \<longrightarrow> runTestVariableModifier this = this) \<and>
   (\<not> m_shouldModificationsContinue this \<longrightarrow>
      m_shouldModificationsContinue (runTestVariableModifier this) \<and>
      modifier_threads (runTestVariableModifier this) = modifier_threads this + 1 \<and>
      runTestVariableModifier (runTestVariableModifier this) = runTestVariableModifier this)"
  by (simp add: runTestVariableModifier_def)

theorem start_is_idempotent_witness:
  "m_shouldModificationsContinue running_fixture \<and>
   runTestVariableModifier running_fixture = running_fixture \<and>
   \<not> m_shouldModificationsContinue idle_fixture \<and>
   m_shouldModificationsContinue (runTestVariableModifier idle_fixture) \<and>
   modifier_threads (runTestVariableModifier idle_fixture) = 1"
  using start_is_idempotent [of running_fixture] start_is_idempotent [of idle_fixture]
  by (simp add: running_fixture_def idle_fixture_def runTestVariableModifier_def)

text \<open>
  Claim C2 says that the accuracy of zero recorded cycles raises a DivisionError or
  returns an explicitly defined sentinel. The source divides without a guard: on a fixture
  with no calculation it raises nothing and returns the outcome of 0.0 / 0.0.
\<close>

theorem accuracy_no_cycles:
  "m_calculations idle_fixture = [] \<and>
   calculateAccuracy (filled (Finite 0)) idle_fixture = Inr Undefined"
  by (simp add: calculateAccuracy_apply idle_fixture_def double_of_int_0 round_double_0)

text \<open>
  Claim C2, amended. The accuracy is the double quotient of the double product of the
  number of recorders whose \<^verbatim>\<open>isCorrect\<close> is true with 100.0, by the number of
  recorders. With at least one recorded cycle, and no more than \<open>2 ^ 46\<close> of them, that
  is the double nearest to 100 times the number of correct recorders divided by the number
  of recorders. With no recorded cycle no error is raised and no sentinel is defined: the
  result is that of the unguarded division by zero.
\<close>

theorem accuracy_is_percentage:
  "calculateAccuracy storage this =
     Inr (double_div
       (double_mul
          (double_of_int (int (length (filter
             (\<lambda>calculation. isCorrect storage calculation = Inr True) (m_calculations this)))))
          (Finite 100))
       (double_of_int (int (length (m_calculations this))))) \<and>
   (m_calculations this \<noteq> [] \<and> length (m_calculations this) \<le> 2 ^ 46 \<longrightarrow>
      calculateAccuracy storage this =
        Inr (Defined (round_double (100 *
          real (length (filter (\<lambda>calculation. isCorrect storage calculation = Inr True)
            (m_calculations this))) /
          real (length (m_calculations this)))))) \<and>
   (m_calculations this = [] \<longrightarrow> calculateAccuracy storage this = Inr Undefined)"
proof (intro conjI impI)
  show "calculateAccuracy storage this =
     Inr (double_div
       (double_mul
          (double_of_int (int (length (filter
             (\<lambda>calculation. isCorrect storage calculation = Inr True) (m_calculations this)))))
          (Finite 100))
       (double_of_int (int (length (m_calculations this)))))"
    by (rule calculateAccuracy_apply)
next
  assume "m_calculations this \<noteq> [] \<and> length (m_calculations this) \<le> 2 ^ 46"
  then show "calculateAccuracy storage this =
        Inr (Defined (round_double (100 *
          real (length (filter (\<lambda>calculation. isCorrect storage calculation = Inr True)
            (m_calculations this))) /
          real (length (m_calculations this)))))"
    by (simp add: calculateAccuracy_apply accuracy_small)
next
  assume "m_calculations this = []"
  then show "calculateAccuracy storage this = Inr Undefined"
    by (simp add: calculateAccuracy_apply double_of_int_0 round_double_0)
qed

theorem accuracy_is_percentage_witness:
  "m_calculations recorded_fixture \<noteq> [] \<and> length (m_calculations recorded_fixture) \<le> 2 ^ 46 \<and>
   calculateAccuracy (filled (Finite 0)) recorded_fixture = Inr (Defined (Finite 50)) \<and>
   m_calculations thirds_fixture \<noteq> [] \<and> length (m_calculations thirds_fixture) \<le> 2 ^ 46 \<and>
   calculateAccuracy (filled (Finite 0)) thirds_fixture =
     Inr (Defined (Finite (4691249611844267 / 2 ^ 47))) \<and>
   m_calculations idle_fixture = [] \<and>
   calculateAccuracy (filled (Finite 0)) idle_fixture = Inr Undefined"
  using accuracy_is_percentage [of "filled (Finite 0)" recorded_fixture]
    accuracy_is_percentage [of "filled (Finite 0)" thirds_fixture]
    accuracy_is_percentage [of "filled (Finite 0)" idle_fixture]
  by (simp add: recorded_fixture_def thirds_fixture_def idle_fixture_def
      isCorrect_right_calculation isCorrect_wrong_calculation round_double_numeral
      round_double_100_thirds round_double_0 double_of_int_0 double_of_int_1
      double_of_int_numeral)

end
